theory Spec2Isabelle
  imports Main "HOL-Library.Word"
begin

section \<open>The index type, element types and error codes\<close>

text \<open>
  \<^verbatim>\<open>mint\<close> is the host's signed index type. Its declaration lives in the host header
  \<^verbatim>\<open>WolframLibrary.h\<close>; on the 64-bit platforms the library targets it is a signed
  64-bit integer, which is what is fixed here. \<^verbatim>\<open>MINT_MAX\<close> and \<^verbatim>\<open>MINT_MIN\<close> are
  \<^verbatim>\<open>std::numeric_limits<mint>::max()\<close> and \<^verbatim>\<open>min()\<close> (MArgumentManager.h, lines 309-313).
\<close>

type_synonym mint = "64 word"

definition MINT_MAX :: mint where
  "MINT_MAX = 0x7FFFFFFFFFFFFFFF"

definition MINT_MIN :: mint where
  "MINT_MIN = 0x8000000000000000"

text \<open>
  The native element types the templates are instantiated at: the twelve types of the
  \<^verbatim>\<open>switch\<close> in \<^verbatim>\<open>operateOnRawArray\<close>. The first eight are the integral types a
  caller can pass to \<^verbatim>\<open>setMintAndCheck<T>\<close>.
\<close>

datatype native =
    int8_t | uint8_t | int16_t | uint16_t | int32_t | uint32_t | int64_t | uint64_t
  | float | double | complex_float | complex_double

text \<open>The error codes of \<^verbatim>\<open>LLErrorCode\<close> that the modelled code throws.\<close>

datatype LLErrorCode =
    FunctionError | DimensionsError
  | MArgumentIndexError | MArgumentRawArrayError | MArgumentTensorError | MArgumentImageError
  | TensorNewError | TensorInitError | TensorTypeError | TensorSizeError | TensorIndexError

section \<open>Argument slots and the argument manager\<close>

text \<open>
  A foreign handle (\<^verbatim>\<open>MTensor\<close>) is a pointer into host memory: an address, or
  \<^verbatim>\<open>nullptr\<close>.
\<close>

type_synonym handle = nat
type_synonym MTensor = "handle option"

text \<open>
  An \<^verbatim>\<open>MArgument\<close> slot holds one value of the host's argument union. Reading a slot
  through the accessor of another member has no defined result in C; the model's
  \<open>MArgument_getMTensor\<close> yields the null pointer there, and every statement about a
  tensor argument assumes that the slot holds a tensor.
\<close>

datatype MArgument =
    MArgument_Empty
  | MArgument_Integer mint
  | MArgument_MTensor MTensor

definition MArgument_setInteger :: "MArgument \<Rightarrow> mint \<Rightarrow> MArgument" where
  "MArgument_setInteger r v = MArgument_Integer v"

definition MArgument_setMTensor :: "MArgument \<Rightarrow> MTensor \<Rightarrow> MArgument" where
  "MArgument_setMTensor r t = MArgument_MTensor t"

fun MArgument_getMTensor :: "MArgument \<Rightarrow> MTensor" where
  "MArgument_getMTensor (MArgument_MTensor t) = t"
| "MArgument_getMTensor _ = None"

text \<open>
  \<^verbatim>\<open>MArgumentManager\<close>: the input slots (\<^verbatim>\<open>args\<close>, of which there are \<^verbatim>\<open>argc\<close>) and the
  output slot \<^verbatim>\<open>res\<close>.
\<close>

record MArgumentManager =
  args :: "MArgument list"
  res :: MArgument

text \<open>
  Modelled from the spec: the body of \<^verbatim>\<open>setInteger\<close> is in the implementation file of
  the argument manager, which is not among the sources. The spec's \<open>setScalar(value)\<close>
  writes the value to the output slot, and the declaration in MArgumentManager.h
  (line 110) says "Set result as output MArgument".
\<close>

definition setInteger :: "mint \<Rightarrow> MArgumentManager \<Rightarrow> MArgumentManager" where
  "setInteger result m = m\<lparr>res := MArgument_setInteger (res m) result\<rparr>"

subsection \<open>setMintAndCheck\<close>

text \<open>
  \<^verbatim>\<open>template<typename T> bool setMintAndCheck(T result)\<close> compares a \<^verbatim>\<open>T\<close> with the
  \<^verbatim>\<open>mint\<close> constants \<^verbatim>\<open>MINT_MAX\<close> and \<^verbatim>\<open>MINT_MIN\<close>. C++ first brings both operands of
  a comparison to a common type (the usual arithmetic conversions): every integral type
  that \<^verbatim>\<open>mint\<close> can represent is converted to \<^verbatim>\<open>mint\<close> and the comparison is the
  mathematical one; when \<^verbatim>\<open>T\<close> is the unsigned type of the same width
  (\<^verbatim>\<open>uint64_t\<close>), it is the \<^verbatim>\<open>mint\<close> operand that is converted to \<^verbatim>\<open>T\<close>, modulo
  \<open>2 ^ 64\<close>. \<open>in_range T v\<close> says that \<open>v\<close> is a value of the integral type \<open>T\<close>, and
  \<open>arith_conv T x\<close> is the value of an operand \<open>x\<close> (of type \<^verbatim>\<open>T\<close> or \<^verbatim>\<open>mint\<close>) in the
  common type of \<^verbatim>\<open>T\<close> and \<^verbatim>\<open>mint\<close>.
\<close>

fun in_range :: "native \<Rightarrow> int \<Rightarrow> bool" where
  "in_range int8_t v = (- (2 ^ 7) \<le> v \<and> v < 2 ^ 7)"
| "in_range uint8_t v = (0 \<le> v \<and> v < 2 ^ 8)"
| "in_range int16_t v = (- (2 ^ 15) \<le> v \<and> v < 2 ^ 15)"
| "in_range uint16_t v = (0 \<le> v \<and> v < 2 ^ 16)"
| "in_range int32_t v = (- (2 ^ 31) \<le> v \<and> v < 2 ^ 31)"
| "in_range uint32_t v = (0 \<le> v \<and> v < 2 ^ 32)"
| "in_range int64_t v = (- (2 ^ 63) \<le> v \<and> v < 2 ^ 63)"
| "in_range uint64_t v = (0 \<le> v \<and> v < 2 ^ 64)"
| "in_range _ v = False"

definition arith_conv :: "native \<Rightarrow> int \<Rightarrow> int" where
  "arith_conv T x = (if T = uint64_t then x mod 2 ^ 64 else x)"

definition setMintAndCheck :: "native \<Rightarrow> int \<Rightarrow> MArgumentManager \<Rightarrow> bool \<times> MArgumentManager" where
  "setMintAndCheck T result m =
     (if arith_conv T result \<ge> arith_conv T (sint MINT_MAX) then (True, setInteger MINT_MAX m)
      else if arith_conv T result \<le> arith_conv T (sint MINT_MIN) then (True, setInteger MINT_MIN m)
      else (False, setInteger (word_of_int result) m))"

text \<open>The clamp of the claim: \<open>v\<close> brought into the closed interval of \<^verbatim>\<open>mint\<close>.\<close>

definition clamp_mint :: "int \<Rightarrow> int" where
  "clamp_mint v = max (sint MINT_MIN) (min (sint MINT_MAX) v)"

section \<open>The host: foreign storage and its callbacks\<close>

text \<open>
  The host environment owns the storage behind every \<^verbatim>\<open>MTensor\<close>. What the callbacks of
  the capability table read from a handle is collected in \<open>MTensor_st\<close>: the runtime type
  tag, the rank, the dimensions, the flattened length and the cells. A cell of freshly
  allocated storage holds no value yet (\<open>None\<close>).

  \<open>mtensor_t\<close> is the tag returned by \<^verbatim>\<open>MTensor_getType\<close> (an \<^verbatim>\<open>unsigned char\<close> in C):
  the three tags of the \<^verbatim>\<open>switch\<close> in \<^verbatim>\<open>operateOnTensor\<close>, the undefined tag, and
  \<open>MType_Other n\<close> for any other value of the underlying integer type.
\<close>

datatype mtensor_t =
    MType_Undef | MType_Integer | MType_Real | MType_Complex | MType_Other nat

record 'a MTensor_st =
  mt_type :: mtensor_t
  mt_rank :: mint
  mt_dims :: "mint list"
  mt_flattenedLength :: mint
  mt_data :: "'a option list"

text \<open>
  The process state the wrappers run against: the three static pointers of
  \<^verbatim>\<open>LibDataHolder\<close> that the constructors test (\<^verbatim>\<open>libData\<close>, \<^verbatim>\<open>raFuns\<close>, \<^verbatim>\<open>imgFuns\<close>;
  \<open>True\<close> is "not null"), and the host's store of live tensors: a map from addresses to
  tensors, the next address the host hands out, and the number of cells it can still
  allocate. The values of the cells are of an arbitrary type \<open>'a\<close>; which native type
  they stand for is what the tag of the tensor records.
\<close>

record 'a world =
  libData :: bool
  raFuns :: bool
  imgFuns :: bool
  tensors :: "handle \<rightharpoonup> 'a MTensor_st"
  fresh :: handle
  avail :: nat

text \<open>
  Modelled from the spec: the callbacks of the capability table (section 6: allocate,
  free, getType, getRank, getDimensions, getFlattenedLength). They belong to the host,
  not to this repository; this is the reference host the wrappers are run against.
  \<^verbatim>\<open>MTensor_new\<close> returns a non-zero error code, and allocates nothing, when the rank
  does not match the dimensions, a dimension is not positive, or the host has too few
  cells left. The getters dereference the handle: on a null or dead handle C defines no
  result, the model answers with the undefined tag, rank 0 and no dimensions, and the
  statements below about reads assume a live handle.
\<close>

definition cells_of :: "mint list \<Rightarrow> nat" where
  "cells_of ds = foldl (*) 1 (map unat ds)"

definition MTensor_new ::
  "mtensor_t \<Rightarrow> mint \<Rightarrow> mint list \<Rightarrow> 'a world \<Rightarrow> (int \<times> MTensor) \<times> 'a world" where
  "MTensor_new ty rnk ds w =
     (if sint rnk \<noteq> int (length ds) \<or> \<not> list_all (\<lambda>d. 0 < sint d) ds \<or> avail w < cells_of ds
      then ((1, None), w)
      else ((0, Some (fresh w)),
            w\<lparr>tensors := (tensors w)(fresh w \<mapsto>
                 \<lparr>mt_type = ty, mt_rank = rnk, mt_dims = ds,
                  mt_flattenedLength = of_nat (cells_of ds),
                  mt_data = replicate (cells_of ds) None\<rparr>),
              fresh := Suc (fresh w),
              avail := avail w - cells_of ds\<rparr>))"

definition MTensor_free :: "MTensor \<Rightarrow> 'a world \<Rightarrow> 'a world" where
  "MTensor_free t w =
     (case t of None \<Rightarrow> w
      | Some h \<Rightarrow>
          (case tensors w h of None \<Rightarrow> w
           | Some st \<Rightarrow> w\<lparr>tensors := (tensors w)(h := None),
                            avail := avail w + length (mt_data st)\<rparr>))"

definition deref :: "'a world \<Rightarrow> MTensor \<Rightarrow> 'a MTensor_st option" where
  "deref w t = (case t of None \<Rightarrow> None | Some h \<Rightarrow> tensors w h)"

definition MTensor_getType :: "'a world \<Rightarrow> MTensor \<Rightarrow> mtensor_t" where
  "MTensor_getType w t = (case deref w t of None \<Rightarrow> MType_Undef | Some st \<Rightarrow> mt_type st)"

definition MTensor_getRank :: "'a world \<Rightarrow> MTensor \<Rightarrow> mint" where
  "MTensor_getRank w t = (case deref w t of None \<Rightarrow> 0 | Some st \<Rightarrow> mt_rank st)"

definition MTensor_getFlattenedLength :: "'a world \<Rightarrow> MTensor \<Rightarrow> mint" where
  "MTensor_getFlattenedLength w t =
     (case deref w t of None \<Rightarrow> 0 | Some st \<Rightarrow> mt_flattenedLength st)"

definition MTensor_getDimensions :: "'a world \<Rightarrow> MTensor \<Rightarrow> mint list" where
  "MTensor_getDimensions w t = (case deref w t of None \<Rightarrow> [] | Some st \<Rightarrow> mt_dims st)"

text \<open>
  Writing through the raw data pointer (\<^verbatim>\<open>getData()\<close>, as \<^verbatim>\<open>std::fill\<close> and
  \<^verbatim>\<open>std::copy\<close> do from \<^verbatim>\<open>begin()\<close>): the values go into the first cells of the storage.
\<close>

definition write_cells :: "'a list \<Rightarrow> 'a option list \<Rightarrow> 'a option list" where
  "write_cells vs cs = map Some (take (length cs) vs) @ drop (length vs) cs"

definition store_data :: "MTensor \<Rightarrow> 'a list \<Rightarrow> 'a world \<Rightarrow> 'a world" where
  "store_data t vs w =
     (case t of None \<Rightarrow> w
      | Some h \<Rightarrow>
          (case tensors w h of None \<Rightarrow> w
           | Some st \<Rightarrow>
               w\<lparr>tensors := (tensors w)(h \<mapsto> st\<lparr>mt_data := write_cells vs (mt_data st)\<rparr>)\<rparr>))"

section \<open>MArrayBase\<close>

text \<open>
  The data members of \<^verbatim>\<open>MArrayBase\<close> (MArrayBase.h, lines 137-147 and 182). By their
  default member initialisers a new object starts with length and depth 0, no
  dimensions, and \<^verbatim>\<open>arrayOwnerQ = false\<close>.
\<close>

record MArrayBase =
  flattenedLength :: mint
  depth :: mint
  dims :: "mint list"
  offsets :: "mint list"
  arrayOwnerQ :: bool

text \<open>
  \<^verbatim>\<open>initError\<close> and \<^verbatim>\<open>sizeError\<close> are virtual. The constructor of \<^verbatim>\<open>MArrayBase\<close> calls
  them while the object is still an \<^verbatim>\<open>MArrayBase\<close>, so the call reaches the bodies of
  \<^verbatim>\<open>MArrayBase\<close> itself (lines 168-178), not the overriders of the derived class; the
  constructor's documentation names the same errors (lines 43-44 and 52-53).
\<close>

definition MArrayBase_initError :: LLErrorCode where
  "MArrayBase_initError = FunctionError"

definition MArrayBase_sizeError :: LLErrorCode where
  "MArrayBase_sizeError = DimensionsError"

definition checkContainerSize :: "mint list \<Rightarrow> LLErrorCode + mint" where
  "checkContainerSize v =
     (if int (length v) > sint MINT_MAX then Inl MArrayBase_sizeError
      else Inr (of_nat (length v)))"

text \<open>
  Modelled from the spec: \<^verbatim>\<open>totalLengthFromDims\<close> and \<^verbatim>\<open>fillOffsets\<close> are declared in
  MArrayBase.h (lines 150 and 216) and defined in the implementation file, which is not
  among the sources. The spec's data model gives \<open>flattenedLength = product(dimensions)\<close>
  and \<open>strides\<close> "derived from dimensions for row-major indexing"; the products are taken
  in \<^verbatim>\<open>mint\<close>, so they wrap around.
\<close>

definition totalLengthFromDims :: "mint list \<Rightarrow> mint" where
  "totalLengthFromDims ds = foldl (*) 1 ds"

definition fillOffsets :: "mint list \<Rightarrow> mint list" where
  "fillOffsets ds = map (\<lambda>i. foldl (*) 1 (drop (Suc i) ds)) [0..<length ds]"

text \<open>
  \<^verbatim>\<open>MArrayBase::MArrayBase(Container&& dimensions)\<close> (lines 219-233), for a container of
  \<^verbatim>\<open>mint\<close>. It reads the static pointers and allocates nothing.
\<close>

definition dimsOk :: "mint list \<Rightarrow> bool" where
  "dimsOk dimensions = list_all (\<lambda>d. 0 < sint d \<and> sint d \<le> sint MINT_MAX) dimensions"

definition MArrayBase_ctor :: "mint list \<Rightarrow> 'a world \<Rightarrow> LLErrorCode + MArrayBase" where
  "MArrayBase_ctor dimensions w =
     (if \<not> libData w \<or> \<not> raFuns w \<or> \<not> imgFuns w then Inl MArrayBase_initError
      else case checkContainerSize dimensions of
             Inl e \<Rightarrow> Inl e
           | Inr dpt \<Rightarrow>
               if \<not> dimsOk dimensions then Inl DimensionsError
               else Inr \<lparr>flattenedLength = totalLengthFromDims dimensions, depth = dpt,
                         dims = dimensions, offsets = fillOffsets dimensions,
                         arrayOwnerQ = False\<rparr>)"

definition rank :: "'b MArrayBase_scheme \<Rightarrow> mint" where
  "rank a = depth a"

definition size_MArray :: "'b MArrayBase_scheme \<Rightarrow> mint" where
  "size_MArray a = flattenedLength a"

text \<open>
  Modelled from the spec: the bodies of \<^verbatim>\<open>setOwner\<close> and \<^verbatim>\<open>isOwner\<close> are in the
  implementation file of \<^verbatim>\<open>MArrayBase\<close>, which is not among the sources. The spec has
  passing to the host "flip the local ownership flag", and the declarations
  (lines 127-133) say that \<^verbatim>\<open>setOwner\<close> sets the ownership to its argument and that
  \<^verbatim>\<open>isOwner\<close> tells whether the object owns the underlying structure: they write and
  read \<^verbatim>\<open>arrayOwnerQ\<close>.
\<close>

definition setOwner :: "bool \<Rightarrow> 'b MArrayBase_scheme \<Rightarrow> 'b MArrayBase_scheme" where
  "setOwner b a = a\<lparr>arrayOwnerQ := b\<rparr>"

definition isOwner :: "'b MArrayBase_scheme \<Rightarrow> bool" where
  "isOwner a = arrayOwnerQ a"

section \<open>Tensor\<close>

text \<open>
  \<^verbatim>\<open>Tensor<T>\<close> extends \<^verbatim>\<open>MArray<T>\<close>, which extends \<^verbatim>\<open>MArrayBase\<close>, by the handle
  \<^verbatim>\<open>internalMT\<close> (Tensor.h, line 199; \<^verbatim>\<open>nullptr\<close> by default). The element type
  parameter \<^verbatim>\<open>T\<close> is one of the three types \<^verbatim>\<open>Tensor\<close> is instantiated at; it is passed
  to the constructors as a value of \<open>tensor_T\<close>.
\<close>

datatype tensor_T = T_mint | T_double | T_complex_double

text \<open>
  Modelled from the spec: the static member \<^verbatim>\<open>Tensor<T>::type\<close> (declared at line 196) is
  defined per instantiation in the implementation file, which is not among the sources.
  The spec gives the tag set of the tensor variant as integer, real and complex-double,
  a fixed mapping from the native element type; \<^verbatim>\<open>operateOnTensor\<close> pairs the same tags
  with \<^verbatim>\<open>mint\<close>, \<^verbatim>\<open>double\<close> and \<^verbatim>\<open>std::complex<double>\<close>.
\<close>

fun Tensor_type :: "tensor_T \<Rightarrow> mtensor_t" where
  "Tensor_type T_mint = MType_Integer"
| "Tensor_type T_double = MType_Real"
| "Tensor_type T_complex_double = MType_Complex"

record Tensor = MArrayBase +
  internalMT :: MTensor

text \<open>
  Modelled from the spec: \<^verbatim>\<open>MArray<T>\<close> (MArray.hpp) is not among the sources. Its
  constructor from dimensions forwards them to \<^verbatim>\<open>MArrayBase\<close>, as the member initialiser
  \<^verbatim>\<open>MArray<T>(std::forward<Container>(dims))\<close> of the \<^verbatim>\<open>Tensor\<close> constructors and their
  \<^verbatim>\<open>@throws\<close> notes say; the new \<^verbatim>\<open>Tensor\<close> starts with a null handle.
\<close>

definition MArray_ctor :: "mint list \<Rightarrow> 'a world \<Rightarrow> LLErrorCode + Tensor" where
  "MArray_ctor dimensions w =
     (case MArrayBase_ctor dimensions w of
        Inl e \<Rightarrow> Inl e
      | Inr b \<Rightarrow> Inr (MArrayBase.extend b (Tensor.fields None)))"

text \<open>The overrider \<^verbatim>\<open>Tensor<T>::initError\<close> (lines 155-157).\<close>

definition Tensor_initError :: LLErrorCode where
  "Tensor_initError = TensorInitError"

text \<open>\<^verbatim>\<open>createInternal\<close> (lines 175-178) and \<^verbatim>\<open>freeInternal\<close> (lines 184-186).\<close>

definition createInternal ::
  "tensor_T \<Rightarrow> Tensor \<Rightarrow> 'a world \<Rightarrow> (LLErrorCode + Tensor) \<times> 'a world" where
  "createInternal T t w =
     (case MTensor_new (Tensor_type T) 1 [flattenedLength t] w of
        ((err, mt), w') \<Rightarrow>
          if err \<noteq> 0 then (Inl TensorNewError, w')
          else (Inr (t\<lparr>internalMT := mt\<rparr>), w'))"

definition freeInternal :: "Tensor \<Rightarrow> 'a world \<Rightarrow> 'a world" where
  "freeInternal t w = MTensor_free (internalMT t) w"

text \<open>
  The destructor (lines 271-275). It runs for a completely constructed \<^verbatim>\<open>Tensor\<close> only:
  when a constructor body throws, C++ destroys the base subobjects and members, whose
  destructors are the defaulted ones, and does not run \<^verbatim>\<open>~Tensor\<close>. A constructor
  that fails therefore returns the world as its body left it.
\<close>

definition Tensor_dtor :: "Tensor \<Rightarrow> 'a world \<Rightarrow> 'a world" where
  "Tensor_dtor t w = (if arrayOwnerQ t then freeInternal t w else w)"

text \<open>
  \<^verbatim>\<open>Tensor(T init, Container&& dims)\<close> (lines 213-219). \<^verbatim>\<open>std::fill\<close> writes \<^verbatim>\<open>init\<close> to
  the \<^verbatim>\<open>flattenedLength\<close> cells from \<^verbatim>\<open>begin()\<close> to \<^verbatim>\<open>end()\<close>.
\<close>

definition Tensor_init_ctor ::
  "tensor_T \<Rightarrow> 'a \<Rightarrow> mint list \<Rightarrow> 'a world \<Rightarrow> (LLErrorCode + Tensor) \<times> 'a world" where
  "Tensor_init_ctor T init dimensions w =
     (case MArray_ctor dimensions w of
        Inl e \<Rightarrow> (Inl e, w)
      | Inr t0 \<Rightarrow>
          (case createInternal T t0 w of
             (Inl e, w') \<Rightarrow> (Inl e, w')
           | (Inr t1, w') \<Rightarrow>
               let t2 = t1\<lparr>arrayOwnerQ := True\<rparr>
               in (Inr t2,
                   store_data (internalMT t2)
                     (replicate (nat (sint (flattenedLength t2))) init) w')))"

text \<open>
  \<^verbatim>\<open>Tensor(InputIt first, InputIt last, Container&& dims)\<close> (lines 229-237); the range
  from \<^verbatim>\<open>first\<close> to \<^verbatim>\<open>last\<close> is the list \<open>elems\<close>. The comparison of the two counts comes
  after \<^verbatim>\<open>createInternal\<close> and before the ownership flag is set.
\<close>

definition Tensor_range_ctor ::
  "tensor_T \<Rightarrow> 'a list \<Rightarrow> mint list \<Rightarrow> 'a world \<Rightarrow> (LLErrorCode + Tensor) \<times> 'a world" where
  "Tensor_range_ctor T elems dimensions w =
     (case MArray_ctor dimensions w of
        Inl e \<Rightarrow> (Inl e, w)
      | Inr t0 \<Rightarrow>
          (case createInternal T t0 w of
             (Inl e, w') \<Rightarrow> (Inl e, w')
           | (Inr t1, w') \<Rightarrow>
               if int (length elems) \<noteq> sint (flattenedLength t1) then (Inl TensorNewError, w')
               else let t2 = t1\<lparr>arrayOwnerQ := True\<rparr>
                    in (Inr t2, store_data (internalMT t2) elems w')))"

text \<open>\<^verbatim>\<open>Tensor(const MTensor t)\<close> (lines 249-262): wrapping a handle of the host.\<close>

definition Tensor_wrap_ctor :: "tensor_T \<Rightarrow> MTensor \<Rightarrow> 'a world \<Rightarrow> LLErrorCode + Tensor" where
  "Tensor_wrap_ctor T t w =
     (if \<not> libData w then Inl Tensor_initError
      else if Tensor_type T \<noteq> MTensor_getType w t then Inl TensorTypeError
      else
        let dpt = MTensor_getRank w t;
            rawDims = MTensor_getDimensions w t;
            ds = take (nat (sint dpt)) rawDims
        in Inr \<lparr>flattenedLength = MTensor_getFlattenedLength w t, depth = dpt, dims = ds,
                offsets = fillOffsets ds, arrayOwnerQ = False, internalMT = t\<rparr>)"

text \<open>
  The move constructor (lines 264-269). The member initialiser
  \<^verbatim>\<open>MArray<T>(std::move(t2))\<close> initialises the base part from the source member by
  member; \<^verbatim>\<open>MArrayBase\<close> declares a destructor and no move constructor of its own, so
  its members are copied and the source keeps its metadata. The body then takes the
  handle and resets the handle and the ownership flag of the source. The result is the
  pair of the new object and the source afterwards.
\<close>

definition Tensor_move_ctor :: "Tensor \<Rightarrow> Tensor \<times> Tensor" where
  "Tensor_move_ctor t2 =
     (let this = \<lparr>flattenedLength = flattenedLength t2, depth = depth t2, dims = dims t2,
                  offsets = offsets t2, arrayOwnerQ = arrayOwnerQ t2,
                  internalMT = internalMT t2\<rparr>
      in (this, t2\<lparr>arrayOwnerQ := False, internalMT := None\<rparr>))"

text \<open>
  \<^verbatim>\<open>passInternal\<close> (Tensor.h, lines 191-193) and \<^verbatim>\<open>MArrayBase::passAsResult\<close>
  (MArrayBase.h, lines 118-121), both \<^verbatim>\<open>noexcept\<close>: the result is the wrapper and the
  output slot afterwards.
\<close>

definition passInternal :: "Tensor \<Rightarrow> MArgument \<Rightarrow> MArgument" where
  "passInternal t r = MArgument_setMTensor r (internalMT t)"

definition passAsResult :: "Tensor \<Rightarrow> MArgument \<Rightarrow> Tensor \<times> MArgument" where
  "passAsResult t r = (setOwner False t, passInternal t r)"

text \<open>\<^verbatim>\<open>MArgumentManager::setTensor\<close> (MArgumentManager.h, lines 414-417).\<close>

definition setTensor :: "Tensor \<Rightarrow> MArgumentManager \<Rightarrow> Tensor \<times> MArgumentManager" where
  "setTensor ten m = (case passAsResult ten (res m) of (ten', r) \<Rightarrow> (ten', m\<lparr>res := r\<rparr>))"

section \<open>Runtime-type dispatch\<close>

text \<open>
  Modelled from the spec: the bodies of \<^verbatim>\<open>getArgs\<close> and \<^verbatim>\<open>getTensorType\<close> are in the
  implementation file of the argument manager, which is not among the sources. The
  spec gives bounds-checked index access, with an index error when out of range, and a
  dispatch that reads the element-type tag of the handle at \<open>index\<close>; the declarations
  in MArgumentManager.h (lines 227 and 298) say the same: \<^verbatim>\<open>getArgs\<close> returns the slot
  at \<^verbatim>\<open>index\<close> and throws \<^verbatim>\<open>MArgumentIndexError\<close> when \<^verbatim>\<open>index\<close> is out of bounds,
  \<^verbatim>\<open>getTensorType\<close> returns the type of the tensor in that slot. The number of slots
  \<^verbatim>\<open>argc\<close> is the length of \<open>args\<close>. \<^verbatim>\<open>getTensor\<close> itself is at lines 409-412.
\<close>

definition getArgs :: "MArgumentManager \<Rightarrow> nat \<Rightarrow> LLErrorCode + MArgument" where
  "getArgs m index =
     (if index \<ge> length (args m) then Inl MArgumentIndexError else Inr (args m ! index))"

definition getTensorType :: "MArgumentManager \<Rightarrow> nat \<Rightarrow> 'a world \<Rightarrow> LLErrorCode + mtensor_t" where
  "getTensorType m index w =
     (case getArgs m index of
        Inl e \<Rightarrow> Inl e
      | Inr a \<Rightarrow> Inr (MTensor_getType w (MArgument_getMTensor a)))"

definition getTensor :: "tensor_T \<Rightarrow> MArgumentManager \<Rightarrow> nat \<Rightarrow> 'a world \<Rightarrow> LLErrorCode + Tensor" where
  "getTensor T m index w =
     (case getArgs m index of
        Inl e \<Rightarrow> Inl e
      | Inr a \<Rightarrow> Tensor_wrap_ctor T (MArgument_getMTensor a) w)"

text \<open>
  A generic operation is a function of the element type it is instantiated at and of the
  wrapper; it may throw. \<open>invoke r op\<close> is the call \<^verbatim>\<open>op(r, args...)\<close> on the wrapper that
  the getter \<open>r\<close> produced: an exception of the getter propagates.
\<close>

definition invoke :: "LLErrorCode + 'x \<Rightarrow> ('x \<Rightarrow> LLErrorCode + 'r) \<Rightarrow> LLErrorCode + 'r" where
  "invoke r op = (case r of Inl e \<Rightarrow> Inl e | Inr x \<Rightarrow> op x)"

text \<open>\<^verbatim>\<open>operateOnTensor\<close> (lines 420-436).\<close>

definition operateOnTensor ::
  "(tensor_T \<Rightarrow> Tensor \<Rightarrow> LLErrorCode + 'r) \<Rightarrow> MArgumentManager \<Rightarrow> nat \<Rightarrow> 'a world
     \<Rightarrow> LLErrorCode + 'r" where
  "operateOnTensor op m index w =
     (case getTensorType m index w of
        Inl e \<Rightarrow> Inl e
      | Inr ty \<Rightarrow>
          (case ty of
             MType_Integer \<Rightarrow> invoke (getTensor T_mint m index w) (op T_mint)
           | MType_Real \<Rightarrow> invoke (getTensor T_double m index w) (op T_double)
           | MType_Complex \<Rightarrow> invoke (getTensor T_complex_double m index w) (op T_complex_double)
           | _ \<Rightarrow> Inl MArgumentTensorError))"

text \<open>
  \<open>rawarray_t\<close> is the tag returned by \<^verbatim>\<open>getRawArrayType\<close>: the enumerators of the
  \<^verbatim>\<open>switch\<close> in \<^verbatim>\<open>operateOnRawArray\<close>, the undefined tag, and \<open>MRawArray_Type_Other n\<close>
  for any other value of the underlying integer type.
\<close>

datatype rawarray_t =
    MRawArray_Type_Undef
  | MRawArray_Type_Bit8 | MRawArray_Type_Ubit8
  | MRawArray_Type_Bit16 | MRawArray_Type_Ubit16
  | MRawArray_Type_Bit32 | MRawArray_Type_Ubit32
  | MRawArray_Type_Bit64 | MRawArray_Type_Ubit64
  | MRawArray_Type_Real32 | MRawArray_Type_Real64
  | MRawArray_Type_Float_Complex | MRawArray_Type_Double_Complex
  | MRawArray_Type_Other nat

text \<open>
  Modelled from the spec: the static member \<^verbatim>\<open>RawArray<T>::type\<close>, the fixed mapping
  from the native element type to the tag, belongs to RawArray.h, which is not among the
  sources. The spec lists the tag set of the raw-buffer variant as the 8/16/32/64-bit
  signed and unsigned integers, the 32/64-bit floats, complex-float and
  complex-double, and pairs the 8-bit-unsigned tag with \<^verbatim>\<open>uint8\<close>.
\<close>

fun RawArray_type :: "native \<Rightarrow> rawarray_t" where
  "RawArray_type int8_t = MRawArray_Type_Bit8"
| "RawArray_type uint8_t = MRawArray_Type_Ubit8"
| "RawArray_type int16_t = MRawArray_Type_Bit16"
| "RawArray_type uint16_t = MRawArray_Type_Ubit16"
| "RawArray_type int32_t = MRawArray_Type_Bit32"
| "RawArray_type uint32_t = MRawArray_Type_Ubit32"
| "RawArray_type int64_t = MRawArray_Type_Bit64"
| "RawArray_type uint64_t = MRawArray_Type_Ubit64"
| "RawArray_type float = MRawArray_Type_Real32"
| "RawArray_type double = MRawArray_Type_Real64"
| "RawArray_type complex_float = MRawArray_Type_Float_Complex"
| "RawArray_type complex_double = MRawArray_Type_Double_Complex"

text \<open>
  \<^verbatim>\<open>operateOnRawArray\<close> (lines 362-405). The class \<^verbatim>\<open>RawArray<T>\<close> is not among the
  sources, so the two members the function calls are parameters: \<open>getRawArrayType\<close>
  (the tag of the raw array at \<^verbatim>\<open>index\<close>) and \<open>getRawArray\<close> (the wrapper of element type
  \<open>T\<close> over the raw array at \<^verbatim>\<open>index\<close>, lines 352-355).
\<close>

definition operateOnRawArray ::
  "(native \<Rightarrow> 'ra \<Rightarrow> LLErrorCode + 'r) \<Rightarrow> (nat \<Rightarrow> LLErrorCode + rawarray_t)
     \<Rightarrow> (native \<Rightarrow> nat \<Rightarrow> LLErrorCode + 'ra) \<Rightarrow> nat \<Rightarrow> LLErrorCode + 'r" where
  "operateOnRawArray op getRawArrayType getRawArray index =
     (case getRawArrayType index of
        Inl e \<Rightarrow> Inl e
      | Inr ty \<Rightarrow>
          (case ty of
             MRawArray_Type_Bit8 \<Rightarrow> invoke (getRawArray int8_t index) (op int8_t)
           | MRawArray_Type_Ubit8 \<Rightarrow> invoke (getRawArray uint8_t index) (op uint8_t)
           | MRawArray_Type_Bit16 \<Rightarrow> invoke (getRawArray int16_t index) (op int16_t)
           | MRawArray_Type_Ubit16 \<Rightarrow> invoke (getRawArray uint16_t index) (op uint16_t)
           | MRawArray_Type_Bit32 \<Rightarrow> invoke (getRawArray int32_t index) (op int32_t)
           | MRawArray_Type_Ubit32 \<Rightarrow> invoke (getRawArray uint32_t index) (op uint32_t)
           | MRawArray_Type_Bit64 \<Rightarrow> invoke (getRawArray int64_t index) (op int64_t)
           | MRawArray_Type_Ubit64 \<Rightarrow> invoke (getRawArray uint64_t index) (op uint64_t)
           | MRawArray_Type_Real32 \<Rightarrow> invoke (getRawArray float index) (op float)
           | MRawArray_Type_Real64 \<Rightarrow> invoke (getRawArray double index) (op double)
           | MRawArray_Type_Float_Complex \<Rightarrow>
               invoke (getRawArray complex_float index) (op complex_float)
           | MRawArray_Type_Double_Complex \<Rightarrow>
               invoke (getRawArray complex_double index) (op complex_double)
           | _ \<Rightarrow> Inl MArgumentRawArrayError))"

section \<open>Concrete states and the invariants under discussion\<close>

text \<open>
  A process in which the capability table has been installed and the host holds no
  tensor yet, and one in which nothing has been installed.
\<close>

definition host0 :: "int world" where
  "host0 = \<lparr>libData = True, raFuns = True, imgFuns = True, tensors = Map.empty,
            fresh = 1, avail = 64\<rparr>"

definition host_unset :: "int world" where
  "host_unset = \<lparr>libData = False, raFuns = False, imgFuns = False, tensors = Map.empty,
                 fresh = 1, avail = 64\<rparr>"

text \<open>A host that holds one integer tensor of shape 2 x 3 at address 1.\<close>

definition host1 :: "int world" where
  "host1 = \<lparr>libData = True, raFuns = True, imgFuns = True,
            tensors = [1 \<mapsto> \<lparr>mt_type = MType_Integer, mt_rank = 2, mt_dims = [2, 3],
                              mt_flattenedLength = 6,
                              mt_data = map Some [10, 20, 30, 40, 50, 60]\<rparr>],
            fresh = 2, avail = 58\<rparr>"

text \<open>
  Two wrappers over the tensor of \<open>host1\<close>: one that owns it and one that wraps it
  without owning it. An argument manager whose second slot holds that tensor.
\<close>

definition owner1 :: Tensor where
  "owner1 = \<lparr>flattenedLength = 6, depth = 2, dims = [2, 3], offsets = [3, 1],
             arrayOwnerQ = True, internalMT = Some 1\<rparr>"

definition wrapped1 :: Tensor where
  "wrapped1 = \<lparr>flattenedLength = 6, depth = 2, dims = [2, 3], offsets = [3, 1],
               arrayOwnerQ = False, internalMT = Some 1\<rparr>"

definition manager1 :: MArgumentManager where
  "manager1 = \<lparr>args = [MArgument_Integer 5, MArgument_MTensor (Some 1)],
               res = MArgument_Empty\<rparr>"

definition installed :: "'a world \<Rightarrow> bool" where
  "installed w = (libData w \<and> raFuns w \<and> imgFuns w)"

text \<open>
  The two readings of the ownership invariant. \<open>owner_or_moved_from\<close> is the invariant as
  the specification words it: the buffer owns a non-null handle, or it is moved-from
  (null handle, not owner). \<open>holder_or_moved_from\<close> only asks that the handle be non-null
  in the first case.
\<close>

definition moved_from :: "Tensor \<Rightarrow> bool" where
  "moved_from t = (internalMT t = None \<and> \<not> arrayOwnerQ t)"

definition owner_or_moved_from :: "Tensor \<Rightarrow> bool" where
  "owner_or_moved_from t = ((arrayOwnerQ t \<and> internalMT t \<noteq> None) \<or> moved_from t)"

definition holder_or_moved_from :: "Tensor \<Rightarrow> bool" where
  "holder_or_moved_from t = (internalMT t \<noteq> None \<or> moved_from t)"

text \<open>The mathematical product of the dimensions, read as signed integers.\<close>

definition product :: "mint list \<Rightarrow> int" where
  "product ds = prod_list (map sint ds)"

section \<open>Arithmetic of the index type\<close>

lemma sint_MINT_MAX: "sint MINT_MAX = 2 ^ 63 - 1"
  by (simp add: MINT_MAX_def)

lemma sint_MINT_MIN: "sint MINT_MIN = - (2 ^ 63)"
  by (simp add: MINT_MIN_def)

lemma MINT_MIN_neg: "(- 9223372036854775808 :: mint) = 9223372036854775808"
  by (simp add: word_eq_iff_signed)

lemma unat_eq_nat_sint: "0 \<le> sint (x :: mint) \<Longrightarrow> unat x = nat (sint x)"
proof -
  assume nn: "0 \<le> sint x"
  have "sint x < 2 ^ 64"
    using sint_lt [of x] by simp
  with nn have "take_bit 64 (sint x) = sint x"
    by (simp add: take_bit_int_eq_self)
  then have "uint x = sint x"
    using uint_sint [of x] by simp
  then show ?thesis by (simp add: unat_eq_nat_uint)
qed

lemma sint_of_nat_length:
  "int n \<le> sint MINT_MAX \<Longrightarrow> sint (of_nat n :: mint) = int n"
  by (simp add: sint_MINT_MAX signed_of_nat signed_take_bit_int_eq_self)

lemma foldl_mult_prod_list: "foldl (*) a ds = a * prod_list (ds :: mint list)"
  by (induction ds arbitrary: a) (simp_all add: mult.assoc)

lemma product_ge_1: "list_all (\<lambda>d. 0 < sint d) ds \<Longrightarrow> 1 \<le> product ds"
proof (induction ds)
  case Nil
  then show ?case by (simp add: product_def)
next
  case (Cons d ds)
  then have "1 \<le> sint d" "1 \<le> product ds" by simp_all
  then have "1 * 1 \<le> sint d * product ds" by (intro mult_mono) simp_all
  then show ?case by (simp add: product_def)
qed

text \<open>
  As long as the mathematical product fits, the product taken in \<^verbatim>\<open>mint\<close> does not wrap:
  every partial product of positive factors is bounded by the whole product.
\<close>

lemma sint_prod_list:
  "list_all (\<lambda>d. 0 < sint d) ds \<Longrightarrow> product ds \<le> sint MINT_MAX
     \<Longrightarrow> sint (prod_list ds) = product ds"
proof (induction ds)
  case Nil
  then show ?case by (simp add: product_def)
next
  case (Cons d ds)
  from Cons.prems have d: "1 \<le> sint d" and pos: "list_all (\<lambda>d. 0 < sint d) ds"
    by simp_all
  have p1: "1 \<le> product ds" using pos by (rule product_ge_1)
  have tot: "sint d * product ds \<le> 2 ^ 63 - 1"
    using Cons.prems(2) by (simp add: product_def sint_MINT_MAX)
  have "1 * product ds \<le> sint d * product ds"
    using d p1 by (intro mult_right_mono) simp_all
  with tot have "product ds \<le> sint MINT_MAX" by (simp add: sint_MINT_MAX)
  with Cons.IH pos have ih: "sint (prod_list ds) = product ds" by simp
  have lo: "- (2 ^ 63) \<le> sint d * product ds"
  proof -
    have "0 \<le> sint d * product ds" using d p1 by simp
    then show ?thesis by simp
  qed
  have "sint (d * prod_list ds) = signed_take_bit 63 (sint d * sint (prod_list ds))"
    by (simp add: sint_word_ariths)
  also have "\<dots> = sint d * product ds"
    using lo tot by (simp add: ih signed_take_bit_int_eq_self)
  finally show ?case by (simp add: product_def)
qed

lemma sint_totalLengthFromDims:
  "list_all (\<lambda>d. 0 < sint d) ds \<Longrightarrow> product ds \<le> sint MINT_MAX
     \<Longrightarrow> sint (totalLengthFromDims ds) = product ds"
  by (simp add: totalLengthFromDims_def foldl_mult_prod_list sint_prod_list)

section \<open>The constructors on valid input\<close>

text \<open>The second half of the test on a dimension can never fail for a \<^verbatim>\<open>mint\<close>.\<close>

lemma dimsOk_iff: "dimsOk ds = list_all (\<lambda>d. 0 < sint d) ds"
proof -
  have "sint d \<le> sint MINT_MAX" for d :: mint
    using sint_lt [of d] by (simp add: sint_MINT_MAX)
  then show ?thesis by (simp add: dimsOk_def)
qed

lemma MArrayBase_ctor_valid:
  assumes "installed w" and "int (length ds) \<le> sint MINT_MAX"
    and "list_all (\<lambda>d. 0 < sint d) ds"
  shows "MArrayBase_ctor ds w =
           Inr \<lparr>flattenedLength = totalLengthFromDims ds, depth = of_nat (length ds),
                dims = ds, offsets = fillOffsets ds, arrayOwnerQ = False\<rparr>"
  using assms
  by (simp add: MArrayBase_ctor_def installed_def checkContainerSize_def dimsOk_iff)

lemma MArray_ctor_valid:
  assumes "installed w" and "int (length ds) \<le> sint MINT_MAX"
    and "list_all (\<lambda>d. 0 < sint d) ds"
  shows "MArray_ctor ds w =
           Inr \<lparr>flattenedLength = totalLengthFromDims ds, depth = of_nat (length ds),
                dims = ds, offsets = fillOffsets ds, arrayOwnerQ = False,
                internalMT = None\<rparr>"
  by (simp add: MArray_ctor_def MArrayBase_ctor_valid [OF assms] MArrayBase.defs Tensor.defs)

lemma createInternal_ok:
  assumes "0 < sint (flattenedLength t)" and "nat (sint (flattenedLength t)) \<le> avail w"
  shows "createInternal T t w =
           (Inr (t\<lparr>internalMT := Some (fresh w)\<rparr>),
            w\<lparr>tensors := (tensors w)(fresh w \<mapsto>
                 \<lparr>mt_type = Tensor_type T, mt_rank = 1, mt_dims = [flattenedLength t],
                  mt_flattenedLength = flattenedLength t,
                  mt_data = replicate (nat (sint (flattenedLength t))) None\<rparr>),
              fresh := Suc (fresh w),
              avail := avail w - nat (sint (flattenedLength t))\<rparr>)"
proof -
  have u: "unat (flattenedLength t) = nat (sint (flattenedLength t))"
    using assms(1) by (simp add: unat_eq_nat_sint)
  have c: "cells_of [flattenedLength t] = nat (sint (flattenedLength t))"
    by (simp add: cells_of_def u)
  have "(of_nat (unat (flattenedLength t)) :: mint) = flattenedLength t"
    by simp
  then have "(of_nat (nat (sint (flattenedLength t))) :: mint) = flattenedLength t"
    by (simp only: u)
  with assms c show ?thesis
    by (simp add: createInternal_def MTensor_new_def)
qed

text \<open>
  \<^verbatim>\<open>createInternal\<close> has two outcomes: \<^verbatim>\<open>TensorNewError\<close> with nothing allocated, or the
  same wrapper with a handle.
\<close>

lemma createInternal_cases:
  "createInternal T t w = (Inl TensorNewError, w)
   \<or> (\<exists>mt w'. createInternal T t w = (Inr (t\<lparr>internalMT := mt\<rparr>), w'))"
proof (cases "0 < sint (flattenedLength t) \<and> \<not> avail w < cells_of [flattenedLength t]")
  case True
  then have "createInternal T t w =
      (Inr (t\<lparr>internalMT := Some (fresh w)\<rparr>),
       w\<lparr>tensors := (tensors w)(fresh w \<mapsto>
            \<lparr>mt_type = Tensor_type T, mt_rank = 1, mt_dims = [flattenedLength t],
             mt_flattenedLength = of_nat (cells_of [flattenedLength t]),
             mt_data = replicate (cells_of [flattenedLength t]) None\<rparr>),
          fresh := Suc (fresh w),
          avail := avail w - cells_of [flattenedLength t]\<rparr>)"
    by (simp add: createInternal_def MTensor_new_def)
  then show ?thesis by blast
next
  case False
  then have "createInternal T t w = (Inl TensorNewError, w)"
    by (auto simp add: createInternal_def MTensor_new_def)
  then show ?thesis by simp
qed

lemma createInternal_handle:
  "createInternal T t0 w = (Inr t1, w1) \<Longrightarrow> internalMT t1 \<noteq> None"
  by (auto simp add: createInternal_def MTensor_new_def split: if_splits)

lemma write_cells_fresh:
  "write_cells vs (replicate (length vs) None) = map Some vs"
  by (simp add: write_cells_def)

lemma Tensor_wrap_ctor_match:
  assumes "libData w" and "tensors w h = Some st" and "mt_type st = Tensor_type T"
  shows "Tensor_wrap_ctor T (Some h) w =
           Inr \<lparr>flattenedLength = mt_flattenedLength st, depth = mt_rank st,
                dims = take (nat (sint (mt_rank st))) (mt_dims st),
                offsets = fillOffsets (take (nat (sint (mt_rank st))) (mt_dims st)),
                arrayOwnerQ = False, internalMT = Some h\<rparr>"
  using assms
  by (simp add: Tensor_wrap_ctor_def MTensor_getType_def MTensor_getRank_def
      MTensor_getDimensions_def MTensor_getFlattenedLength_def deref_def Let_def)

lemma Tensor_wrap_ctor_host1:
  "Tensor_wrap_ctor T_mint (Some 1) host1 = Inr wrapped1"
  by (simp add: Tensor_wrap_ctor_def host1_def wrapped1_def MTensor_getType_def
      MTensor_getRank_def MTensor_getDimensions_def MTensor_getFlattenedLength_def deref_def
      fillOffsets_def Let_def)

lemma Tensor_dtor_owner1:
  "tensors (Tensor_dtor owner1 host1) 1 = None"
  by (simp add: Tensor_dtor_def owner1_def freeInternal_def MTensor_free_def host1_def)

section \<open>C1: a failed construction and the storage it allocated\<close>

text \<open>
  Claim C1: for every buffer construction that partially completes and then fails, in
  particular the \<^verbatim>\<open>Tensor\<close> constructor from an element range and dimensions, which first
  allocates foreign storage and then raises \<^verbatim>\<open>TensorNewError\<close> when the range length
  differs from the flattened length, the storage already allocated is released before
  the exception propagates.

  The code does not release it. With two elements for a tensor of three, in a process
  whose host holds no tensor, the constructor fails with \<^verbatim>\<open>TensorNewError\<close> and the host
  is left holding the tensor at address 1, to which no wrapper refers: the check comes
  after \<^verbatim>\<open>createInternal\<close>, \<^verbatim>\<open>arrayOwnerQ\<close> is still false, and the destructor does not
  run for an object whose constructor threw.
\<close>

theorem Tensor_range_ctor_leaks:
  "fst (Tensor_range_ctor T_mint [1, 2] [3] host0) = Inl TensorNewError
   \<and> dom (tensors host0) = {}
   \<and> dom (tensors (snd (Tensor_range_ctor T_mint [1, 2] [3] host0))) = {1}"
  by (simp add: Tensor_range_ctor_def MArray_ctor_def MArrayBase_ctor_def host0_def
      checkContainerSize_def dimsOk_def sint_MINT_MAX totalLengthFromDims_def
      fillOffsets_def createInternal_def MTensor_new_def cells_of_def
      MArrayBase.defs Tensor.defs)

section \<open>C2: construction without the capability table\<close>

text \<open>
  Claim C2 as stated: every constructor invoked while the capability table is not
  installed fails with the variant-specific initialisation error, the shape-allocating
  constructor as well as the wrapping one. For the shape-allocating constructor this is
  not what the code does: the test is made in the constructor of \<^verbatim>\<open>MArrayBase\<close>, whose
  \<^verbatim>\<open>initError\<close> throws the general \<^verbatim>\<open>FunctionError\<close>, not \<^verbatim>\<open>TensorInitError\<close>.
\<close>

theorem shape_ctor_uninstalled_counterexample:
  "\<not> installed host_unset
   \<and> fst (Tensor_init_ctor T_mint 7 [2, 3] host_unset) = Inl FunctionError
   \<and> fst (Tensor_init_ctor T_mint 7 [2, 3] host_unset) \<noteq> Inl Tensor_initError"
  by (simp add: installed_def host_unset_def Tensor_init_ctor_def MArray_ctor_def
      MArrayBase_ctor_def MArrayBase_initError_def Tensor_initError_def)

text \<open>
  Claim C2, amended: while \<^verbatim>\<open>libData\<close> is not installed, the wrapping constructor fails
  with the variant-specific \<^verbatim>\<open>TensorInitError\<close>; while any of \<^verbatim>\<open>libData\<close>, \<^verbatim>\<open>raFuns\<close>,
  \<^verbatim>\<open>imgFuns\<close> is not installed, the constructors from dimensions fail with the general
  \<^verbatim>\<open>FunctionError\<close> and allocate nothing.
\<close>

theorem uninstalled_table_errors:
  "(\<not> libData w \<longrightarrow> Tensor_wrap_ctor T t w = Inl TensorInitError)
   \<and> (\<not> installed w \<longrightarrow>
        MArrayBase_ctor ds w = Inl FunctionError
        \<and> Tensor_init_ctor T init ds w = (Inl FunctionError, w)
        \<and> Tensor_range_ctor T elems ds w = (Inl FunctionError, w))"
  by (auto simp add: Tensor_wrap_ctor_def Tensor_initError_def installed_def
      MArrayBase_ctor_def MArrayBase_initError_def MArray_ctor_def
      Tensor_init_ctor_def Tensor_range_ctor_def)

theorem uninstalled_table_errors_witness:
  "\<not> libData host_unset \<and> \<not> installed host_unset
   \<and> Tensor_wrap_ctor T_mint (Some 1) host_unset = Inl TensorInitError
   \<and> MArrayBase_ctor [2, 3] host_unset = Inl FunctionError
   \<and> Tensor_init_ctor T_mint 7 [2, 3] host_unset = (Inl FunctionError, host_unset)
   \<and> Tensor_range_ctor T_mint [1, 2] [2, 3] host_unset = (Inl FunctionError, host_unset)"
proof -
  have h1: "\<not> libData host_unset" by (simp add: host_unset_def)
  have h2: "\<not> installed host_unset" by (simp add: installed_def host_unset_def)
  show ?thesis
    using h1 h2
      uninstalled_table_errors [of host_unset T_mint "Some 1" "[2, 3]" 7 "[1, 2]"]
    by simp
qed

section \<open>C3: dispatch on the runtime element type\<close>

lemma Tensor_type_inj: "Tensor_type T = Tensor_type T' \<Longrightarrow> T = T'"
  by (cases T; cases T'; simp)

lemma RawArray_type_inj: "RawArray_type T = RawArray_type T' \<Longrightarrow> T = T'"
  by (cases T; cases T'; simp)

lemma operateOnTensor_supported:
  assumes "getTensorType m index w = Inr (Tensor_type T)"
  shows "operateOnTensor op m index w = invoke (getTensor T m index w) (op T)"
  using assms by (cases T) (simp_all add: operateOnTensor_def)

lemma operateOnTensor_unsupported:
  assumes "getTensorType m index w = Inr ty" and "\<forall>T. ty \<noteq> Tensor_type T"
  shows "operateOnTensor op m index w = Inl MArgumentTensorError"
proof -
  from assms(2) have "ty \<noteq> Tensor_type T_mint" "ty \<noteq> Tensor_type T_double"
    "ty \<noteq> Tensor_type T_complex_double" by blast+
  with assms(1) show ?thesis
    by (cases ty) (simp_all add: operateOnTensor_def)
qed

lemma operateOnRawArray_supported:
  assumes "getRawArrayType index = Inr (RawArray_type T)"
  shows "operateOnRawArray op getRawArrayType getRawArray index
           = invoke (getRawArray T index) (op T)"
  using assms by (cases T) (simp_all add: operateOnRawArray_def)

lemma operateOnRawArray_unsupported:
  assumes "getRawArrayType index = Inr ty" and "\<forall>T. ty \<noteq> RawArray_type T"
  shows "operateOnRawArray op getRawArrayType getRawArray index = Inl MArgumentRawArrayError"
proof -
  from assms(2) have
    "ty \<noteq> RawArray_type int8_t" "ty \<noteq> RawArray_type uint8_t"
    "ty \<noteq> RawArray_type int16_t" "ty \<noteq> RawArray_type uint16_t"
    "ty \<noteq> RawArray_type int32_t" "ty \<noteq> RawArray_type uint32_t"
    "ty \<noteq> RawArray_type int64_t" "ty \<noteq> RawArray_type uint64_t"
    "ty \<noteq> RawArray_type float" "ty \<noteq> RawArray_type double"
    "ty \<noteq> RawArray_type complex_float" "ty \<noteq> RawArray_type complex_double"
    by blast+
  with assms(1) show ?thesis
    by (cases ty) (simp_all add: operateOnRawArray_def)
qed

text \<open>
  Claim C3: for every buffer argument whose runtime element-type tag is in the variant's
  supported set, the dispatch invokes the caller's generic operation instantiated exactly
  at the native element type mapped from that tag; for every tag outside the supported
  set it fails with the variant-specific type error of the argument manager; no branch
  goes to a different element type.

  For a tensor argument: when the slot at \<open>index\<close> holds a live tensor whose tag is the tag
  of \<open>T\<close>, the wrapper of element type \<open>T\<close> is built and the result is that of \<open>op T\<close> on it;
  when its tag is the tag of no element type, the result is \<^verbatim>\<open>MArgumentTensorError\<close>.
  For a raw array: when the tag is the tag of \<open>T'\<close>, the result is that of \<open>op' T'\<close> on
  the wrapper of element type \<open>T'\<close>; when it is the tag of no element type, the result is
  \<^verbatim>\<open>MArgumentRawArrayError\<close>. Both tag tables are injective, so the element type is the
  only one with that tag.
\<close>

theorem dispatch_on_element_type:
  "(index < length (args m) \<and> args m ! index = MArgument_MTensor (Some h) \<and> libData w
      \<and> tensors w h = Some st \<and> mt_type st = Tensor_type T
      \<longrightarrow> (\<exists>t. Tensor_wrap_ctor T (Some h) w = Inr t
                \<and> operateOnTensor op m index w = op T t))
   \<and> (index < length (args m) \<and> args m ! index = MArgument_MTensor (Some h)
      \<and> tensors w h = Some st \<and> (\<forall>T. mt_type st \<noteq> Tensor_type T)
      \<longrightarrow> operateOnTensor op m index w = Inl MArgumentTensorError)
   \<and> (getRawArrayType index = Inr (RawArray_type T')
      \<longrightarrow> operateOnRawArray op' getRawArrayType getRawArray index
            = invoke (getRawArray T' index) (op' T'))
   \<and> (getRawArrayType index = Inr ty \<and> (\<forall>T. ty \<noteq> RawArray_type T)
      \<longrightarrow> operateOnRawArray op' getRawArrayType getRawArray index
            = Inl MArgumentRawArrayError)
   \<and> inj Tensor_type \<and> inj RawArray_type"
proof -
  have a: "\<exists>t. Tensor_wrap_ctor T (Some h) w = Inr t \<and> operateOnTensor op m index w = op T t"
    if "index < length (args m)" "args m ! index = MArgument_MTensor (Some h)" "libData w"
      "tensors w h = Some st" "mt_type st = Tensor_type T"
  proof -
    have ty: "getTensorType m index w = Inr (Tensor_type T)"
      using that by (simp add: getTensorType_def getArgs_def MTensor_getType_def deref_def)
    have gt: "getTensor T m index w = Tensor_wrap_ctor T (Some h) w"
      using that by (simp add: getTensor_def getArgs_def)
    note t = Tensor_wrap_ctor_match [OF that(3,4,5)]
    show ?thesis
      using operateOnTensor_supported [OF ty, of op] by (simp add: gt t invoke_def)
  qed
  have b: "operateOnTensor op m index w = Inl MArgumentTensorError"
    if "index < length (args m)" "args m ! index = MArgument_MTensor (Some h)"
      "tensors w h = Some st" "\<forall>T. mt_type st \<noteq> Tensor_type T"
  proof -
    have ty: "getTensorType m index w = Inr (mt_type st)"
      using that by (simp add: getTensorType_def getArgs_def MTensor_getType_def deref_def)
    from ty that(4) show ?thesis by (rule operateOnTensor_unsupported)
  qed
  have c: "inj Tensor_type" "inj RawArray_type"
    by (auto intro!: injI dest: Tensor_type_inj RawArray_type_inj)
  from a b c show ?thesis
    by (auto simp add: operateOnRawArray_supported operateOnRawArray_unsupported)
qed

theorem dispatch_on_element_type_witness:
  "operateOnTensor (\<lambda>T t. Inr (T, internalMT t)) manager1 1 host1 = Inr (T_mint, Some 1)
   \<and> operateOnTensor (\<lambda>T t. Inr (T, internalMT t)) manager1 1
        (host1\<lparr>tensors := [1 \<mapsto> \<lparr>mt_type = MType_Other 9, mt_rank = 1, mt_dims = [1],
                                   mt_flattenedLength = 1, mt_data = [Some 0]\<rparr>]\<rparr>)
        = Inl MArgumentTensorError
   \<and> operateOnRawArray (\<lambda>T x. Inr (T, x)) (\<lambda>i. Inr MRawArray_Type_Ubit8)
        (\<lambda>T i. Inr (RawArray_type T, i)) (1 :: nat)
        = Inr (uint8_t, MRawArray_Type_Ubit8, 1)
   \<and> operateOnRawArray (\<lambda>T x. Inr (T, x)) (\<lambda>i. Inr (MRawArray_Type_Other 128))
        (\<lambda>T i. Inr (RawArray_type T, i)) (1 :: nat)
        = Inl MArgumentRawArrayError"
proof -
  let ?op = "\<lambda>T (t :: Tensor). (Inr (T, internalMT t) :: LLErrorCode + tensor_T \<times> MTensor)"
  let ?op' = "\<lambda>T (x :: rawarray_t \<times> nat).
                 (Inr (T, x) :: LLErrorCode + native \<times> rawarray_t \<times> nat)"
  let ?gra = "\<lambda>T (i :: nat). (Inr (RawArray_type T, i) :: LLErrorCode + rawarray_t \<times> nat)"
  let ?st = "\<lparr>mt_type = MType_Other 9, mt_rank = 1, mt_dims = [1 :: mint],
               mt_flattenedLength = 1, mt_data = [Some (0 :: int)]\<rparr>"
  let ?w2 = "host1\<lparr>tensors := [1 \<mapsto> ?st]\<rparr>"
  let ?st1 = "\<lparr>mt_type = MType_Integer, mt_rank = 2, mt_dims = [2, 3 :: mint],
        mt_flattenedLength = 6, mt_data = map Some [10, 20, 30, 40, 50, 60 :: int]\<rparr>"
  have u1: "\<forall>T. mt_type ?st \<noteq> Tensor_type T"
  proof
    fix T show "mt_type ?st \<noteq> Tensor_type T" by (cases T) simp_all
  qed
  have u2: "\<forall>T. MRawArray_Type_Other 128 \<noteq> RawArray_type T"
  proof
    fix T show "MRawArray_Type_Other 128 \<noteq> RawArray_type T" by (cases T) simp_all
  qed
  note d1 = dispatch_on_element_type [where index = 1 and m = manager1 and h = 1
      and w = host1 and st = ?st1 and T = T_mint and op = ?op
      and getRawArrayType = "\<lambda>i. Inr MRawArray_Type_Ubit8" and T' = uint8_t
      and op' = ?op' and getRawArray = ?gra]
  note d2 = dispatch_on_element_type [where index = 1 and m = manager1 and h = 1
      and w = ?w2 and st = ?st and op = ?op
      and getRawArrayType = "\<lambda>i. Inr (MRawArray_Type_Other 128)"
      and op' = ?op' and getRawArray = ?gra and ty = "MRawArray_Type_Other 128"]
  show ?thesis
    using d1 d2 u1 u2
    by (simp add: manager1_def host1_def invoke_def Tensor_wrap_ctor_def MTensor_getType_def
      MTensor_getRank_def MTensor_getDimensions_def MTensor_getFlattenedLength_def deref_def
      fillOffsets_def Let_def)
qed

section \<open>C4: size and rank of a buffer constructed from valid dimensions\<close>

text \<open>
  Claim C4: for every dimensions list in which each entry is positive and the product of
  the entries fits in \<^verbatim>\<open>mint\<close>, constructing a buffer from those dimensions succeeds and
  yields \<^verbatim>\<open>size()\<close> equal to the product of the dimensions and \<^verbatim>\<open>rank()\<close> equal to their
  number.

  The construction runs in a process where the capability table is installed, on a
  container that fits in memory (fewer than \<open>2 ^ 63\<close> entries), and, for the \<^verbatim>\<open>Tensor\<close>
  that allocates, against a host that has the cells to give. The statement covers the
  constructor of \<^verbatim>\<open>MArrayBase\<close> and the constructor \<^verbatim>\<open>Tensor(T init, Container&& dims)\<close>.
\<close>

theorem construct_size_rank:
  assumes "installed w"
    and "list_all (\<lambda>d. 0 < sint d) ds"
    and "product ds \<le> sint MINT_MAX"
    and "int (length ds) \<le> sint MINT_MAX"
    and "nat (product ds) \<le> avail w"
  shows "(\<exists>b. MArrayBase_ctor ds w = Inr b
              \<and> sint (size_MArray b) = product ds \<and> sint (rank b) = int (length ds))
       \<and> (\<exists>t w'. Tensor_init_ctor T init ds w = (Inr t, w')
              \<and> sint (size_MArray t) = product ds \<and> sint (rank t) = int (length ds))"
proof -
  have len: "sint (totalLengthFromDims ds) = product ds"
    using assms(2,3) by (rule sint_totalLengthFromDims)
  have rnk: "sint (of_nat (length ds) :: mint) = int (length ds)"
    using assms(4) by (rule sint_of_nat_length)
  have base: "MArrayBase_ctor ds w =
      Inr \<lparr>flattenedLength = totalLengthFromDims ds, depth = of_nat (length ds),
           dims = ds, offsets = fillOffsets ds, arrayOwnerQ = False\<rparr>"
    using assms(1,4,2) by (rule MArrayBase_ctor_valid)
  let ?t0 = "\<lparr>flattenedLength = totalLengthFromDims ds, depth = of_nat (length ds),
           dims = ds, offsets = fillOffsets ds, arrayOwnerQ = False, internalMT = None\<rparr>"
  have arr: "MArray_ctor ds w = Inr ?t0"
    using assms(1,4,2) by (rule MArray_ctor_valid)
  have pos: "1 \<le> product ds" using assms(2) by (rule product_ge_1)
  have "0 < sint (flattenedLength ?t0)" "nat (sint (flattenedLength ?t0)) \<le> avail w"
    using pos assms(5) by (simp_all add: len)
  note ci = createInternal_ok [OF this, of T]
  have first: "\<exists>b. MArrayBase_ctor ds w = Inr b
              \<and> sint (size_MArray b) = product ds \<and> sint (rank b) = int (length ds)"
    by (simp add: base size_MArray_def rank_def len rnk)
  have second: "\<exists>t w'. Tensor_init_ctor T init ds w = (Inr t, w')
              \<and> sint (size_MArray t) = product ds \<and> sint (rank t) = int (length ds)"
    by (simp add: Tensor_init_ctor_def arr ci Let_def size_MArray_def rank_def len rnk)
  from first second show ?thesis by (rule conjI)
qed

theorem construct_size_rank_witness:
  "installed host0 \<and> list_all (\<lambda>d. 0 < sint d) [2, 3 :: mint]
   \<and> product [2, 3] \<le> sint MINT_MAX \<and> int (length [2, 3 :: mint]) \<le> sint MINT_MAX
   \<and> nat (product [2, 3]) \<le> avail host0
   \<and> (\<exists>b. MArrayBase_ctor [2, 3] host0 = Inr b
          \<and> sint (size_MArray b) = 6 \<and> sint (rank b) = 2)
   \<and> (\<exists>t w'. Tensor_init_ctor T_mint 7 [2, 3] host0 = (Inr t, w')
          \<and> sint (size_MArray t) = 6 \<and> sint (rank t) = 2)"
proof -
  have h1: "installed host0" by (simp add: installed_def host0_def)
  have h2: "list_all (\<lambda>d. 0 < sint d) [2, 3 :: mint]" by simp
  have h3: "product [2, 3] \<le> sint MINT_MAX" by (simp add: product_def sint_MINT_MAX)
  have h4: "int (length [2, 3 :: mint]) \<le> sint MINT_MAX" by (simp add: sint_MINT_MAX)
  have h5: "nat (product [2, 3]) \<le> avail host0" by (simp add: product_def host0_def)
  show ?thesis
    using h1 h2 h3 h4 h5 construct_size_rank [OF h1 h2 h3 h4 h5, of T_mint 7]
    by (simp add: product_def)
qed

section \<open>C5: wrapping a handle of the host\<close>

text \<open>
  Claim C5: for every foreign handle whose declared element type differs from the
  wrapper's element type parameter, wrapping the handle fails with \<^verbatim>\<open>TensorTypeError\<close>;
  for a handle of matching type, wrapping succeeds without allocating, records the rank,
  the dimensions and the flattened length read from the handle, and sets the ownership
  flag to not owned.

  The handle is a live tensor of the host and \<^verbatim>\<open>libData\<close> is installed.
  \<open>Tensor_wrap_ctor\<close> reads the world and does not return one: it allocates nothing.
\<close>

theorem wrap_checks_type:
  assumes "libData w" and "tensors w h = Some st"
  shows "(mt_type st \<noteq> Tensor_type T \<longrightarrow> Tensor_wrap_ctor T (Some h) w = Inl TensorTypeError)
       \<and> (mt_type st = Tensor_type T \<longrightarrow>
            (\<exists>t. Tensor_wrap_ctor T (Some h) w = Inr t
                \<and> internalMT t = Some h
                \<and> rank t = mt_rank st
                \<and> dims t = take (nat (sint (mt_rank st))) (mt_dims st)
                \<and> size_MArray t = mt_flattenedLength st
                \<and> \<not> isOwner t))"
proof -
  have differ: "Tensor_wrap_ctor T (Some h) w = Inl TensorTypeError"
    if "mt_type st \<noteq> Tensor_type T"
    using assms that
    by (auto simp add: Tensor_wrap_ctor_def MTensor_getType_def deref_def)
  have match: "\<exists>t. Tensor_wrap_ctor T (Some h) w = Inr t
                \<and> internalMT t = Some h
                \<and> rank t = mt_rank st
                \<and> dims t = take (nat (sint (mt_rank st))) (mt_dims st)
                \<and> size_MArray t = mt_flattenedLength st
                \<and> \<not> isOwner t"
    if "mt_type st = Tensor_type T"
    by (simp add: Tensor_wrap_ctor_match [OF assms that] rank_def size_MArray_def isOwner_def)
  from differ match show ?thesis by blast
qed

theorem wrap_checks_type_witness:
  "libData host1
   \<and> tensors host1 1 = Some \<lparr>mt_type = MType_Integer, mt_rank = 2, mt_dims = [2, 3],
        mt_flattenedLength = 6, mt_data = map Some [10, 20, 30, 40, 50, 60]\<rparr>
   \<and> Tensor_wrap_ctor T_double (Some 1) host1 = Inl TensorTypeError
   \<and> (\<exists>t. Tensor_wrap_ctor T_mint (Some 1) host1 = Inr t
          \<and> internalMT t = Some 1 \<and> rank t = 2 \<and> dims t = [2, 3] \<and> size_MArray t = 6
          \<and> \<not> isOwner t)"
proof -
  have h1: "libData host1" by (simp add: host1_def)
  have h2: "tensors host1 1 = Some \<lparr>mt_type = MType_Integer, mt_rank = 2, mt_dims = [2, 3],
        mt_flattenedLength = 6, mt_data = map Some [10, 20, 30, 40, 50, 60]\<rparr>"
    by (simp add: host1_def)
  show ?thesis
    using h1 h2 wrap_checks_type [OF h1 h2, of T_double] wrap_checks_type [OF h1 h2, of T_mint]
    by simp
qed

section \<open>C6: move construction and the ownership invariant\<close>

text \<open>
  Claim C6 as stated ends with: so every buffer is either an owner of a non-null handle
  or moved-from. A buffer that wraps a handle of the host is neither: its handle is not
  null and its ownership flag is false, and it stays so when it is moved.
\<close>

theorem wrapped_buffer_counterexample:
  "Tensor_wrap_ctor T_mint (Some 1) host1 = Inr wrapped1
   \<and> \<not> owner_or_moved_from wrapped1
   \<and> \<not> owner_or_moved_from (fst (Tensor_move_ctor wrapped1))"
proof -
  have a: "\<not> owner_or_moved_from wrapped1"
    by (simp add: wrapped1_def owner_or_moved_from_def moved_from_def)
  have b: "\<not> owner_or_moved_from (fst (Tensor_move_ctor wrapped1))"
    by (simp add: wrapped1_def owner_or_moved_from_def moved_from_def Tensor_move_ctor_def)
  from Tensor_wrap_ctor_host1 a b show ?thesis by blast
qed

text \<open>
  Claim C6, amended: after move-constructing \<open>b2\<close> from \<open>b1\<close>, the source is in a
  destructible non-owning state (null handle, ownership flag false) and \<open>b2\<close> holds
  exactly the handle \<open>b1\<close> held, with the ownership status \<open>b1\<close> had; destroying the
  source afterwards releases nothing; so every buffer either holds a non-null handle,
  which it owns or not, or is moved-from. The last part holds of what each constructor
  returns and is kept by moving and by passing to the host.
\<close>

theorem move_ctor_transfers:
  "internalMT (snd (Tensor_move_ctor b1)) = None
   \<and> \<not> isOwner (snd (Tensor_move_ctor b1))
   \<and> internalMT (fst (Tensor_move_ctor b1)) = internalMT b1
   \<and> isOwner (fst (Tensor_move_ctor b1)) = isOwner b1
   \<and> Tensor_dtor (snd (Tensor_move_ctor b1)) w = w
   \<and> moved_from (snd (Tensor_move_ctor b1))
   \<and> (holder_or_moved_from b1 \<longrightarrow> holder_or_moved_from (fst (Tensor_move_ctor b1)))
   \<and> (Tensor_wrap_ctor T (Some h) w = Inr t \<longrightarrow> holder_or_moved_from t)
   \<and> (Tensor_init_ctor T init ds w = (Inr t, w') \<longrightarrow> holder_or_moved_from t)
   \<and> (Tensor_range_ctor T elems ds w = (Inr t, w') \<longrightarrow> holder_or_moved_from t)
   \<and> (holder_or_moved_from b1 \<longrightarrow> holder_or_moved_from (fst (passAsResult b1 r)))"
proof -
  have mv: "internalMT (snd (Tensor_move_ctor b1)) = None
   \<and> \<not> isOwner (snd (Tensor_move_ctor b1))
   \<and> internalMT (fst (Tensor_move_ctor b1)) = internalMT b1
   \<and> isOwner (fst (Tensor_move_ctor b1)) = isOwner b1
   \<and> Tensor_dtor (snd (Tensor_move_ctor b1)) w = w
   \<and> moved_from (snd (Tensor_move_ctor b1))
   \<and> (holder_or_moved_from b1 \<longrightarrow> holder_or_moved_from (fst (Tensor_move_ctor b1)))"
    by (simp add: Tensor_move_ctor_def Let_def isOwner_def Tensor_dtor_def moved_from_def
        holder_or_moved_from_def)
  have wr: "Tensor_wrap_ctor T (Some h) w = Inr t \<longrightarrow> holder_or_moved_from t"
    by (auto simp add: Tensor_wrap_ctor_def Let_def holder_or_moved_from_def
        split: if_splits)
  have ini: "Tensor_init_ctor T init ds w = (Inr t, w') \<longrightarrow> holder_or_moved_from t"
    by (auto simp add: Tensor_init_ctor_def Let_def holder_or_moved_from_def
        split: sum.splits prod.splits dest: createInternal_handle)
  have rng: "Tensor_range_ctor T elems ds w = (Inr t, w') \<longrightarrow> holder_or_moved_from t"
    by (auto simp add: Tensor_range_ctor_def Let_def holder_or_moved_from_def
        split: sum.splits prod.splits if_splits dest: createInternal_handle)
  have pa: "holder_or_moved_from b1 \<longrightarrow> holder_or_moved_from (fst (passAsResult b1 r))"
    by (simp add: passAsResult_def setOwner_def holder_or_moved_from_def moved_from_def)
  from mv wr ini rng pa show ?thesis by blast
qed

theorem move_ctor_transfers_witness:
  "holder_or_moved_from owner1
   \<and> internalMT (snd (Tensor_move_ctor owner1)) = None
   \<and> \<not> isOwner (snd (Tensor_move_ctor owner1))
   \<and> internalMT (fst (Tensor_move_ctor owner1)) = Some 1
   \<and> isOwner (fst (Tensor_move_ctor owner1))
   \<and> Tensor_dtor (snd (Tensor_move_ctor owner1)) host1 = host1
   \<and> holder_or_moved_from (fst (Tensor_move_ctor owner1))
   \<and> Tensor_wrap_ctor T_mint (Some 1) host1 = Inr wrapped1
   \<and> holder_or_moved_from wrapped1"
proof -
  have h: "holder_or_moved_from owner1"
    by (simp add: holder_or_moved_from_def owner1_def)
  show ?thesis
    using h Tensor_wrap_ctor_host1
      move_ctor_transfers [of owner1 host1 T_mint 1 wrapped1 7 "[2, 3]" host1 "[]"
        MArgument_Empty]
    by (simp add: isOwner_def owner1_def)
qed

section \<open>C7: passing a buffer to the host\<close>

text \<open>
  Claim C7: passing a buffer to the host (\<^verbatim>\<open>passAsResult\<close>) writes the buffer's internal
  handle into the output slot, never fails, and flips the local ownership flag to not
  owned, so that destroying the wrapper afterwards releases nothing.

  \<open>passAsResult\<close> has no error result. The slot afterwards holds the handle, the wrapper
  is not the owner and still refers to the handle, and its destructor leaves every
  world as it is. \<^verbatim>\<open>MArgumentManager::setTensor\<close> does the same on the output slot of the
  manager.
\<close>

theorem passAsResult_disowns:
  "snd (passAsResult t r) = MArgument_MTensor (internalMT t)
   \<and> \<not> isOwner (fst (passAsResult t r))
   \<and> internalMT (fst (passAsResult t r)) = internalMT t
   \<and> Tensor_dtor (fst (passAsResult t r)) w = w
   \<and> res (snd (setTensor t m)) = MArgument_MTensor (internalMT t)
   \<and> fst (setTensor t m) = fst (passAsResult t (res m))"
  by (simp add: setTensor_def passAsResult_def passInternal_def MArgument_setMTensor_def
      setOwner_def isOwner_def Tensor_dtor_def)

theorem passAsResult_disowns_witness:
  "snd (passAsResult owner1 MArgument_Empty) = MArgument_MTensor (Some 1)
   \<and> \<not> isOwner (fst (passAsResult owner1 MArgument_Empty))
   \<and> tensors (Tensor_dtor (fst (passAsResult owner1 MArgument_Empty)) host1) 1
       = tensors host1 1
   \<and> tensors host1 1 \<noteq> None
   \<and> tensors (Tensor_dtor owner1 host1) 1 = None"
proof -
  have a: "internalMT owner1 = Some 1" by (simp add: owner1_def)
  have b: "tensors host1 1 \<noteq> None" by (simp add: host1_def)
  show ?thesis
    using a b Tensor_dtor_owner1
      passAsResult_disowns [of owner1 MArgument_Empty host1 manager1]
    by simp
qed

section \<open>C8: the constructor from an element range\<close>

text \<open>
  Claim C8: for every element range and dimensions list such that the number of elements
  in the range does not equal the flattened length implied by the dimensions, the filling
  constructor fails with \<^verbatim>\<open>TensorNewError\<close>; when the counts are equal it succeeds and
  copies the range into the new storage.

  The dimensions are valid and the capability table is installed, so that the
  construction reaches the comparison; in the second case the host has the cells to
  give. The new storage is the tensor at the address the host hands out, and its cells
  afterwards are the elements of the range, in order.
\<close>

theorem range_ctor_count:
  assumes "installed w"
    and "list_all (\<lambda>d. 0 < sint d) ds"
    and "product ds \<le> sint MINT_MAX"
    and "int (length ds) \<le> sint MINT_MAX"
  shows "(int (length elems) \<noteq> product ds
            \<longrightarrow> fst (Tensor_range_ctor T elems ds w) = Inl TensorNewError)
       \<and> (int (length elems) = product ds \<and> length elems \<le> avail w
            \<longrightarrow> (\<exists>t w'. Tensor_range_ctor T elems ds w = (Inr t, w')
                   \<and> isOwner t \<and> internalMT t = Some (fresh w)
                   \<and> sint (size_MArray t) = int (length elems)
                   \<and> map_option mt_data (tensors w' (fresh w)) = Some (map Some elems)))"
proof -
  have len: "sint (totalLengthFromDims ds) = product ds"
    using assms(2,3) by (rule sint_totalLengthFromDims)
  let ?t0 = "\<lparr>flattenedLength = totalLengthFromDims ds, depth = of_nat (length ds),
           dims = ds, offsets = fillOffsets ds, arrayOwnerQ = False, internalMT = None\<rparr>"
  have arr: "MArray_ctor ds w = Inr ?t0"
    using assms(1,4,2) by (rule MArray_ctor_valid)
  have pos: "1 \<le> product ds" using assms(2) by (rule product_ge_1)
  have mismatch: "fst (Tensor_range_ctor T elems ds w) = Inl TensorNewError"
    if ne: "int (length elems) \<noteq> product ds"
  proof -
    from createInternal_cases [of T ?t0 w] show ?thesis
    proof
      assume "createInternal T ?t0 w = (Inl TensorNewError, w)"
      then show ?thesis by (simp add: Tensor_range_ctor_def arr)
    next
      assume "\<exists>mt w'. createInternal T ?t0 w = (Inr (?t0\<lparr>internalMT := mt\<rparr>), w')"
      then obtain mt w' where "createInternal T ?t0 w = (Inr (?t0\<lparr>internalMT := mt\<rparr>), w')"
        by blast
      then show ?thesis using ne by (simp add: Tensor_range_ctor_def arr len)
    qed
  qed
  have match: "\<exists>t w'. Tensor_range_ctor T elems ds w = (Inr t, w')
                   \<and> isOwner t \<and> internalMT t = Some (fresh w)
                   \<and> sint (size_MArray t) = int (length elems)
                   \<and> map_option mt_data (tensors w' (fresh w)) = Some (map Some elems)"
    if eq: "int (length elems) = product ds" and room: "length elems \<le> avail w"
  proof -
    have n: "nat (product ds) = length elems" using eq by simp
    have "0 < sint (flattenedLength ?t0)" "nat (sint (flattenedLength ?t0)) \<le> avail w"
      using pos room n by (simp_all add: len)
    note ci = createInternal_ok [OF this, of T]
    show ?thesis
      by (simp add: Tensor_range_ctor_def arr ci Let_def len eq [symmetric] isOwner_def
          size_MArray_def store_data_def write_cells_fresh)
  qed
  from mismatch match show ?thesis by blast
qed

theorem range_ctor_count_witness:
  "installed host0 \<and> list_all (\<lambda>d. 0 < sint d) [2, 3 :: mint]
   \<and> product [2, 3] \<le> sint MINT_MAX \<and> int (length [2, 3 :: mint]) \<le> sint MINT_MAX
   \<and> int (length [1, 2 :: int]) \<noteq> product [2, 3]
   \<and> fst (Tensor_range_ctor T_mint [1, 2] [2, 3] host0) = Inl TensorNewError
   \<and> int (length [10, 20, 30, 40, 50, 60 :: int]) = product [2, 3]
   \<and> length [10, 20, 30, 40, 50, 60 :: int] \<le> avail host0
   \<and> (\<exists>t w'. Tensor_range_ctor T_mint [10, 20, 30, 40, 50, 60] [2, 3] host0 = (Inr t, w')
          \<and> isOwner t \<and> internalMT t = Some 1 \<and> sint (size_MArray t) = 6
          \<and> map_option mt_data (tensors w' 1)
              = Some [Some 10, Some 20, Some 30, Some 40, Some 50, Some 60])"
proof -
  have h1: "installed host0" by (simp add: installed_def host0_def)
  have h2: "list_all (\<lambda>d. 0 < sint d) [2, 3 :: mint]" by simp
  have h3: "product [2, 3] \<le> sint MINT_MAX" by (simp add: product_def sint_MINT_MAX)
  have h4: "int (length [2, 3 :: mint]) \<le> sint MINT_MAX" by (simp add: sint_MINT_MAX)
  have p: "product [2, 3] = 6" by (simp add: product_def)
  have f: "fresh host0 = 1" "avail host0 = 64" by (simp_all add: host0_def)
  show ?thesis
    using h1 h2 h3 h4
      range_ctor_count [OF h1 h2 h3 h4, of "[1, 2]" T_mint]
      range_ctor_count [OF h1 h2 h3 h4, of "[10, 20, 30, 40, 50, 60]" T_mint]
    by (simp add: p f)
qed

section \<open>C9: a dimension that is not positive\<close>

text \<open>
  Claim C9: for every dimensions list containing at least one non-positive entry, buffer
  construction fails with \<^verbatim>\<open>DimensionsError\<close> and no buffer is produced.

  With the capability table installed, the constructor of \<^verbatim>\<open>MArrayBase\<close> and both
  \<^verbatim>\<open>Tensor\<close> constructors from dimensions fail with \<^verbatim>\<open>DimensionsError\<close>, and the world
  is as before: nothing was allocated.
\<close>

theorem nonpositive_dimension_rejected:
  assumes "installed w" and "\<exists>d \<in> set ds. sint d \<le> 0"
  shows "MArrayBase_ctor ds w = Inl DimensionsError
       \<and> Tensor_init_ctor T init ds w = (Inl DimensionsError, w)
       \<and> Tensor_range_ctor T elems ds w = (Inl DimensionsError, w)"
proof -
  from assms(2) obtain d where "d \<in> set ds" and "\<not> 0 < sint d"
    by (auto simp add: not_less)
  then have "\<not> dimsOk ds"
    by (auto simp add: dimsOk_iff list_all_iff)
  with assms(1) have base: "MArrayBase_ctor ds w = Inl DimensionsError"
    by (simp add: MArrayBase_ctor_def installed_def checkContainerSize_def
        MArrayBase_sizeError_def)
  then have arr: "MArray_ctor ds w = Inl DimensionsError"
    by (simp add: MArray_ctor_def)
  show ?thesis
    by (simp add: base arr Tensor_init_ctor_def Tensor_range_ctor_def)
qed

theorem nonpositive_dimension_rejected_witness:
  "installed host0 \<and> (\<exists>d \<in> set [2, 0 :: mint]. sint d \<le> 0)
   \<and> MArrayBase_ctor [2, 0] host0 = Inl DimensionsError
   \<and> Tensor_init_ctor T_mint 7 [2, 0] host0 = (Inl DimensionsError, host0)
   \<and> Tensor_range_ctor T_mint [1, 2] [2, 0] host0 = (Inl DimensionsError, host0)"
proof -
  have h1: "installed host0" by (simp add: installed_def host0_def)
  have h2: "\<exists>d \<in> set [2, 0 :: mint]. sint d \<le> 0" by simp
  show ?thesis
    using h1 h2 nonpositive_dimension_rejected [OF h1 h2, of T_mint 7 "[1, 2]"] by simp
qed

section \<open>C10: setMintAndCheck\<close>

text \<open>
  For every integral type whose values \<^verbatim>\<open>mint\<close> can represent, and for the values of
  \<^verbatim>\<open>uint64_t\<close> from \<^verbatim>\<open>MINT_MAX\<close> upwards, \<^verbatim>\<open>setMintAndCheck\<close> stores the clamped value and
  reports whether the value lies on or beyond a bound.
\<close>

lemma setMintAndCheck_representable:
  assumes "in_range T v" and "T \<noteq> uint64_t \<or> 2 ^ 63 - 1 \<le> v"
  shows "setMintAndCheck T v m =
           (sint MINT_MAX \<le> v \<or> v \<le> sint MINT_MIN,
            setInteger (word_of_int (clamp_mint v)) m)"
proof (cases "T = uint64_t")
  case True
  with assms have v: "2 ^ 63 - 1 \<le> v" "0 \<le> v" "v < 2 ^ 64" by auto
  then have "v mod 2 ^ 64 = v" by simp
  with True v show ?thesis
    by (simp add: setMintAndCheck_def arith_conv_def sint_MINT_MAX sint_MINT_MIN
        clamp_mint_def MINT_MAX_def)
next
  case False
  with assms(1) have r: "- (2 ^ 63) \<le> v" "v < 2 ^ 63"
    by (cases T; simp)+
  show ?thesis
  proof (cases "2 ^ 63 - 1 \<le> v")
    case True
    with r have "v = 2 ^ 63 - 1" by simp
    with False show ?thesis
      by (simp add: setMintAndCheck_def arith_conv_def sint_MINT_MAX sint_MINT_MIN
          clamp_mint_def MINT_MAX_def)
  next
    case nmax: False
    show ?thesis
    proof (cases "v \<le> - (2 ^ 63)")
      case True
      with r have "v = - (2 ^ 63)" by simp
      with False show ?thesis
        by (simp add: setMintAndCheck_def arith_conv_def sint_MINT_MAX sint_MINT_MIN
            clamp_mint_def MINT_MIN_def MINT_MIN_neg)
    next
      case False
      with nmax \<open>T \<noteq> uint64_t\<close> show ?thesis
        by (simp add: setMintAndCheck_def arith_conv_def sint_MINT_MAX sint_MINT_MIN
            clamp_mint_def)
    qed
  qed
qed

text \<open>
  Claim C10: for every integral value \<open>v\<close>, \<^verbatim>\<open>setMintAndCheck(v)\<close> sets the output slot to
  \<open>v\<close> clamped into the closed interval from \<^verbatim>\<open>MINT_MIN\<close> to \<^verbatim>\<open>MINT_MAX\<close> and returns true
  exactly when \<open>v\<close> is at least \<^verbatim>\<open>MINT_MAX\<close> or at most \<^verbatim>\<open>MINT_MIN\<close>.

  At \<^verbatim>\<open>T = uint64_t\<close> the code does otherwise. The value 5 lies strictly between the
  bounds and clamps to itself, but the second comparison is made in \<^verbatim>\<open>uint64_t\<close>, where
  \<^verbatim>\<open>MINT_MIN\<close> is \<open>2 ^ 63\<close>: the function stores \<^verbatim>\<open>MINT_MIN\<close> and returns true. The same
  value passed as an \<^verbatim>\<open>int64_t\<close> is stored unchanged, with false.
\<close>

theorem setMintAndCheck_uint64_t_small:
  "in_range uint64_t 5
   \<and> setMintAndCheck uint64_t 5 manager1 = (True, manager1\<lparr>res := MArgument_Integer MINT_MIN\<rparr>)
   \<and> clamp_mint 5 = 5
   \<and> \<not> (sint MINT_MAX \<le> 5 \<or> 5 \<le> sint MINT_MIN)
   \<and> setMintAndCheck int64_t 5 manager1 = (False, manager1\<lparr>res := MArgument_Integer 5\<rparr>)"
proof -
  have u: "setMintAndCheck uint64_t 5 manager1
             = (True, manager1\<lparr>res := MArgument_Integer MINT_MIN\<rparr>)"
    by (simp add: setMintAndCheck_def arith_conv_def sint_MINT_MAX sint_MINT_MIN
        setInteger_def MArgument_setInteger_def)
  have s: "setMintAndCheck int64_t 5 manager1 = (False, manager1\<lparr>res := MArgument_Integer 5\<rparr>)"
    using setMintAndCheck_representable [of int64_t 5 manager1]
    by (simp add: sint_MINT_MAX sint_MINT_MIN clamp_mint_def setInteger_def
        MArgument_setInteger_def)
  from u s show ?thesis
    by (simp add: sint_MINT_MAX sint_MINT_MIN clamp_mint_def)
qed

end
